theory Spec2Isabelle
  imports Complex_Main "HOL-Library.Word" "HOL-Library.Sublist"
begin

unbundle bit_operations_syntax

section \<open>USB host descriptors: a shallow embedding of \<open>adafruit_usb_host_descriptors.py\<close>\<close>

text \<open>
  Python integers are \<open>nat\<close> (every integer of the module is a byte read from a
  \<open>bytearray\<close>, a length, an index or a 16-bit id) except where a caller may pass a negative
  number, which is \<open>int\<close>. A \<open>bytearray\<close> is a list of 8-bit words; reading one element
  gives a Python integer. Exceptions are values: a function that may raise returns
  \<open>py_exception + 'a\<close>. A loop that the source does not bound is a
  \<^theory_text>\<open>partial_function\<close> in the option monad: \<open>None\<close> is "never returns".
  A Python float is the real number it denotes; the one float operation of the module
  that rounds, the subtraction of two clock readings, is a parameter of the model, because
  the source does not fix the float format of the platform.
  The \<open>print\<close> calls of the handlers are diagnostics only and are not modelled.
  Leading underscores of private names are dropped.
\<close>

subsection \<open>Values\<close>

datatype py_exception =
  USBError | NoBackendError | ValueError string | IndexError | AttributeError | KeyError

text \<open>A value that is either \<open>None\<close> or a \<open>str\<close> (the string attributes of a device).\<close>

datatype pystr = PyNone | PyStr string

type_synonym byte = "8 word"

text \<open>
  A device handle of \<open>usb.core\<close>. An attribute may be missing (\<open>None\<close> at the outer
  level, which \<open>getattr\<close> replaces by its default). \<open>ctrl_transfer\<close> takes
  \<open>bmRequestType\<close>, \<open>bRequest\<close>, \<open>wValue\<close>, \<open>wIndex\<close> and the length of the buffer it is
  given; it raises, or returns the count it reports together with the bytes it wrote.
\<close>

record usb_device =
  idVendor :: nat
  idProduct :: nat
  serial_number :: "pystr option"
  manufacturer_attr :: "pystr option"
  product_attr :: "pystr option"
  ctrl_transfer :: "nat \<Rightarrow> nat \<Rightarrow> nat \<Rightarrow> nat \<Rightarrow> nat \<Rightarrow> py_exception + int \<times> byte list"

abbreviation (input) DESC_DEVICE :: nat where "DESC_DEVICE \<equiv> 1"
abbreviation (input) DESC_CONFIGURATION :: nat where "DESC_CONFIGURATION \<equiv> 2"
abbreviation (input) DESC_INTERFACE :: nat where "DESC_INTERFACE \<equiv> 4"
abbreviation (input) DESC_ENDPOINT :: nat where "DESC_ENDPOINT \<equiv> 5"
abbreviation (input) DIR_IN :: nat where "DIR_IN \<equiv> 128"
abbreviation (input) HID_CLASS :: nat where "HID_CLASS \<equiv> 3"
abbreviation (input) BOOT_SUBCLASS :: nat where "BOOT_SUBCLASS \<equiv> 1"
abbreviation (input) KEYBOARD_PROTOCOL :: nat where "KEYBOARD_PROTOCOL \<equiv> 1"
abbreviation (input) MOUSE_PROTOCOL :: nat where "MOUSE_PROTOCOL \<equiv> 2"
abbreviation (input) NO_PROTOCOL :: nat where "NO_PROTOCOL \<equiv> 0"

definition getattr :: "pystr option \<Rightarrow> pystr \<Rightarrow> pystr" where
  "getattr a dflt = (case a of None \<Rightarrow> dflt | Some v \<Rightarrow> v)"

text \<open>\<open>buf[i]\<close> for \<open>i \<ge> 0\<close>: the byte as an integer, or \<open>IndexError\<close>.\<close>

definition byte_at :: "byte list \<Rightarrow> nat \<Rightarrow> py_exception + nat" where
  "byte_at buf i = (if i < length buf then Inr (unat (buf ! i)) else Inl IndexError)"

subsection \<open>Descriptor fetcher\<close>

text \<open>
  The buffer handed to the transfer is a fresh \<open>bytearray(n)\<close> of zeros; the device
  overwrites its front. The buffer keeps its length whatever the device reports.
\<close>

definition fill_buffer :: "nat \<Rightarrow> byte list \<Rightarrow> byte list" where
  "fill_buffer n written = take n written @ replicate (n - length written) 0"

definition get_descriptor ::
  "usb_device \<Rightarrow> nat \<Rightarrow> nat \<Rightarrow> nat \<Rightarrow> nat \<Rightarrow> py_exception + int \<times> byte list" where
  "get_descriptor device desc_type index buf_len language_id =
     (case ctrl_transfer device (DIR_IN OR 0) 6 (push_bit 8 desc_type OR index)
             language_id buf_len of
        Inl e \<Rightarrow> Inl e
      | Inr (n, written) \<Rightarrow> Inr (n, fill_buffer buf_len written))"

definition get_device_descriptor :: "usb_device \<Rightarrow> py_exception + byte list" where
  "get_device_descriptor device =
     (case get_descriptor device DESC_DEVICE 0 18 0 of
        Inl e \<Rightarrow> Inl e
      | Inr (len, buf) \<Rightarrow>
          if len \<noteq> 18 then Inl (ValueError ''Invalid device descriptor length'')
          else Inr buf)"

definition get_configuration_descriptor :: "usb_device \<Rightarrow> nat \<Rightarrow> py_exception + byte list" where
  "get_configuration_descriptor device index =
     (case get_descriptor device DESC_CONFIGURATION index 9 0 of
        Inl e \<Rightarrow> Inl e
      | Inr (len, buf) \<Rightarrow>
          if len < 9 then Inl (ValueError ''Invalid configuration descriptor length'')
          else
            let total_length = push_bit 8 (unat (buf ! 3)) OR unat (buf ! 2) in
            (case get_descriptor device DESC_CONFIGURATION index total_length 0 of
               Inl e \<Rightarrow> Inl e
             | Inr (len2, full_buf) \<Rightarrow>
                 if len2 \<noteq> int total_length
                 then Inl (ValueError ''Configuration descriptor length mismatch'')
                 else Inr full_buf))"

subsection \<open>Finding the input endpoint of an interface\<close>

text \<open>The \<open>while\<close> loop of \<open>_find_input_endpoint\<close>, started at index \<open>i\<close>.\<close>

partial_function (option) find_loop ::
  "byte list \<Rightarrow> nat \<Rightarrow> (py_exception + nat option) option" where
  "find_loop config_descriptor i =
     (if i < length config_descriptor then
        (case byte_at config_descriptor i of
           Inl e \<Rightarrow> Some (Inl e)
         | Inr descriptor_len \<Rightarrow>
        (case byte_at config_descriptor (i + 1) of
           Inl e \<Rightarrow> Some (Inl e)
         | Inr descriptor_type \<Rightarrow>
             if descriptor_type = DESC_ENDPOINT then
               (case byte_at config_descriptor (i + 2) of
                  Inl e \<Rightarrow> Some (Inl e)
                | Inr endpoint_address \<Rightarrow>
                    if endpoint_address AND DIR_IN \<noteq> 0
                    then Some (Inr (Some endpoint_address))
                    else find_loop config_descriptor (i + descriptor_len))
             else if descriptor_type = DESC_INTERFACE then Some (Inr None)
             else find_loop config_descriptor (i + descriptor_len)))
      else Some (Inr None))"

text \<open>
  The \<open>try\<close> around the loop catches \<open>IndexError\<close> and the function then returns
  \<open>None\<close>; any other exception would propagate.
\<close>

definition find_input_endpoint :: "byte list \<Rightarrow> nat \<Rightarrow> (py_exception + nat option) option" where
  "find_input_endpoint config_descriptor start_index =
     (case find_loop config_descriptor start_index of
        None \<Rightarrow> None
      | Some (Inl e) \<Rightarrow> if e = IndexError then Some (Inr None) else Some (Inl e)
      | Some (Inr r) \<Rightarrow> Some (Inr r))"

subsection \<open>Interface records and classification\<close>

text \<open>The dictionary \<open>interface_info\<close> built by \<open>_analyze_device\<close>, one field per key.\<close>

record interface_info =
  device :: usb_device
  interface_index :: nat
  endpoint_address :: nat
  interface_class :: nat
  interface_subclass :: nat
  interface_protocol :: nat
  vid :: nat
  pid :: nat
  manufacturer :: pystr
  product :: pystr

text \<open>
  \<open>str.lower\<close> on the ASCII letters (the strings of the model are byte strings), and
  the substring test \<open>keyword in product_lower\<close>.
\<close>

definition lower_char :: "char \<Rightarrow> char" where
  "lower_char c =
     (case map_of (zip ''ABCDEFGHIJKLMNOPQRSTUVWXYZ'' ''abcdefghijklmnopqrstuvwxyz'') c of
        Some l \<Rightarrow> l
      | None \<Rightarrow> c)"

definition lower :: "string \<Rightarrow> string" where
  "lower s = map lower_char s"

fun str_in :: "string \<Rightarrow> string \<Rightarrow> bool" where
  "str_in keyword [] = (keyword = [])"
| "str_in keyword (c # cs) = (prefix keyword (c # cs) \<or> str_in keyword cs)"

definition keyboard_keywords :: "string list" where
  "keyboard_keywords = [''keyboard'', ''kbd'', ''keypad'']"

definition mouse_keywords :: "string list" where
  "mouse_keywords = [''mouse'', ''pointer'', ''trackball'', ''touchpad'', ''trackpad'']"

definition gamepad_keywords :: "string list" where
  "gamepad_keywords =
     [''gamepad'', ''controller'', ''joystick'', ''xbox'', ''playstation'',
      ''ps3'', ''ps4'', ''ps5'']"

definition known_keyboards :: "(nat \<times> nat) list" where
  "known_keyboards = [(0x046D, 0xC52B), (0x413C, 0x2113), (0x045E, 0x0750)]"

definition known_mice :: "(nat \<times> nat) list" where
  "known_mice = [(0x046D, 0xC077), (0x1532, 0x0037), (0x045E, 0x0040)]"

definition known_gamepads :: "(nat \<times> nat) list" where
  "known_gamepads =
     [(0x045E, 0x028E), (0x045E, 0x02D1), (0x054C, 0x0268), (0x054C, 0x05C4),
      (0x054C, 0x0CE6)]"

text \<open>The part of \<open>_classify_hid_device\<close> after the boot-protocol test.\<close>

definition classify_heuristics :: "string \<Rightarrow> nat \<Rightarrow> nat \<Rightarrow> string" where
  "classify_heuristics product_str vid_v pid_v =
     (let product_lower = lower product_str in
      if list_ex (\<lambda>keyword. str_in keyword product_lower) keyboard_keywords then ''keyboard''
      else if list_ex (\<lambda>keyword. str_in keyword product_lower) mouse_keywords then ''mouse''
      else if list_ex (\<lambda>keyword. str_in keyword product_lower) gamepad_keywords
        then ''gamepad''
      else if (vid_v, pid_v) \<in> set known_keyboards then ''keyboard''
      else if (vid_v, pid_v) \<in> set known_mice then ''mouse''
      else if (vid_v, pid_v) \<in> set known_gamepads then ''gamepad''
      else ''gamepad'')"

definition classify_hid_device :: "interface_info \<Rightarrow> string" where
  "classify_hid_device device_info =
     (let protocol = interface_protocol device_info;
          subclass = interface_subclass device_info;
          product_str = (case product device_info of
                           PyStr p \<Rightarrow> if p \<noteq> [] then lower p else []
                         | PyNone \<Rightarrow> [])
      in if subclass = BOOT_SUBCLASS then
           (if protocol = KEYBOARD_PROTOCOL then ''keyboard''
            else if protocol = MOUSE_PROTOCOL then ''mouse''
            else classify_heuristics product_str (vid device_info) (pid device_info))
         else classify_heuristics product_str (vid device_info) (pid device_info))"

subsection \<open>Device filters\<close>

record filter_settings =
  allowed_vids :: "nat set option"
  blocked_vids :: "nat set"
  allowed_manufacturers :: "string set option"
  blocked_manufacturers :: "string set"

text \<open>The module's initial \<open>_device_filters\<close>.\<close>

definition initial_filters :: filter_settings where
  "initial_filters =
     \<lparr>allowed_vids = None, blocked_vids = {}, allowed_manufacturers = None,
      blocked_manufacturers = {}\<rparr>"

definition set_device_filter ::
  "nat set option \<Rightarrow> nat set option \<Rightarrow> string set option \<Rightarrow> string set option \<Rightarrow>
   filter_settings \<Rightarrow> filter_settings" where
  "set_device_filter allowed_v blocked_v allowed_m blocked_m f =
     (let f1 = (case allowed_v of None \<Rightarrow> f | Some a \<Rightarrow> f\<lparr>allowed_vids := Some a\<rparr>);
          f2 = (case blocked_v of None \<Rightarrow> f1 | Some b \<Rightarrow> f1\<lparr>blocked_vids := b\<rparr>);
          f3 = (case allowed_m of None \<Rightarrow> f2
                | Some a \<Rightarrow> f2\<lparr>allowed_manufacturers := Some (lower ` a)\<rparr>);
          f4 = (case blocked_m of None \<Rightarrow> f3
                | Some b \<Rightarrow> f3\<lparr>blocked_manufacturers := lower ` b\<rparr>)
      in f4)"

text \<open>
  The test \<open>allowed and x not in allowed\<close> on an optional set: \<open>None\<close> and the empty
  set are false, so the membership test is reached for a non-empty set only.
\<close>

definition set_and_not_in :: "'a set option \<Rightarrow> 'a \<Rightarrow> bool" where
  "set_and_not_in allowed x = (case allowed of None \<Rightarrow> False | Some a \<Rightarrow> a \<noteq> {} \<and> x \<notin> a)"

definition device_passes_filter :: "filter_settings \<Rightarrow> interface_info \<Rightarrow> py_exception + bool" where
  "device_passes_filter f device_info =
     (case manufacturer device_info of
        PyNone \<Rightarrow> Inl AttributeError
      | PyStr m \<Rightarrow>
          let manufacturer_l = lower m; vid_v = vid device_info in
          if set_and_not_in (allowed_vids f) vid_v then Inr False
          else if vid_v \<in> blocked_vids f then Inr False
          else if set_and_not_in (allowed_manufacturers f) manufacturer_l then Inr False
          else if manufacturer_l \<in> blocked_manufacturers f then Inr False
          else Inr True)"

subsection \<open>The device cache\<close>

text \<open>
  A dictionary whose order of insertion matters is an association list:
  \<open>d[k] = v\<close> replaces in place or appends.
\<close>

fun dict_set :: "'k \<Rightarrow> 'v \<Rightarrow> ('k \<times> 'v) list \<Rightarrow> ('k \<times> 'v) list" where
  "dict_set k v [] = [(k, v)]"
| "dict_set k v ((k', v') # d) = (if k' = k then (k, v) # d else (k', v') # dict_set k v d)"

record composite_info =
  composite_device :: usb_device
  interfaces_by_type :: "(string \<times> interface_info list) list"
  composite_product :: pystr
  types :: "string list"

record device_cache =
  keyboards :: "interface_info list"
  mice :: "interface_info list"
  gamepads :: "interface_info list"
  composite_devices :: "(string \<times> composite_info) list"
  last_scan :: "real option"

definition initial_cache :: device_cache where
  "initial_cache =
     \<lparr>keyboards = [], mice = [], gamepads = [], composite_devices = [], last_scan = None\<rparr>"

text \<open>\<open>cache[device_type]\<close> for the three list-valued keys; another key raises \<open>KeyError\<close>.\<close>

definition bucket :: "device_cache \<Rightarrow> string \<Rightarrow> py_exception + interface_info list" where
  "bucket c device_type =
     (if device_type = ''keyboards'' then Inr (keyboards c)
      else if device_type = ''mice'' then Inr (mice c)
      else if device_type = ''gamepads'' then Inr (gamepads c)
      else Inl KeyError)"

subsection \<open>Analysing one device\<close>

definition select_best_interface_for_type ::
  "interface_info list \<Rightarrow> string \<Rightarrow> py_exception + interface_info" where
  "select_best_interface_for_type interfaces device_type =
     (let boot_interfaces = filter (\<lambda>iface. interface_subclass iface = BOOT_SUBCLASS) interfaces;
          expected_protocol =
            (if device_type = ''keyboard'' then KEYBOARD_PROTOCOL
             else if device_type = ''mouse'' then MOUSE_PROTOCOL else NO_PROTOCOL)
      in case boot_interfaces of
           first_boot # _ \<Rightarrow>
             (case find (\<lambda>iface. interface_protocol iface = expected_protocol) boot_interfaces of
                Some iface \<Rightarrow> Inr iface
              | None \<Rightarrow> Inr first_boot)
         | [] \<Rightarrow> (case interfaces of [] \<Rightarrow> Inl IndexError | iface # _ \<Rightarrow> Inr iface))"

text \<open>
  \<open>_device_already_cached\<close>: \<open>getattr(d, 'serial_number', None)\<close> makes a missing
  serial number equal to one that is \<open>None\<close>. A wrong bucket name is a \<open>KeyError\<close>, which
  the function catches.
\<close>

definition device_already_cached :: "device_cache \<Rightarrow> usb_device \<Rightarrow> string \<Rightarrow> bool" where
  "device_already_cached c dev device_type =
     (case bucket c device_type of
        Inl e \<Rightarrow> False
      | Inr infos \<Rightarrow>
          list_ex (\<lambda>cached_device_info.
             let cached_device = device cached_device_info in
             idVendor cached_device = idVendor dev \<and>
             idProduct cached_device = idProduct dev \<and>
             getattr (serial_number cached_device) PyNone = getattr (serial_number dev) PyNone)
            infos)"

text \<open>
  One pass of the body of the \<open>while\<close> loop of \<open>_analyze_device\<close> at index \<open>i\<close>: the
  next index and the list \<open>hid_interfaces\<close>, or the exception raised. The index reads follow
  the source's order.
\<close>

definition visit_descriptor ::
  "filter_settings \<Rightarrow> usb_device \<Rightarrow> byte list \<Rightarrow> nat \<Rightarrow> interface_info list \<Rightarrow>
   (py_exception + nat \<times> interface_info list) option" where
  "visit_descriptor f dev config_descriptor i hid_interfaces =
     (case byte_at config_descriptor i of
        Inl e \<Rightarrow> Some (Inl e)
      | Inr descriptor_len \<Rightarrow>
     (case byte_at config_descriptor (i + 1) of
        Inl e \<Rightarrow> Some (Inl e)
      | Inr descriptor_type \<Rightarrow>
          if descriptor_type = DESC_INTERFACE then
            (case byte_at config_descriptor (i + 2) of
               Inl e \<Rightarrow> Some (Inl e)
             | Inr interface_number \<Rightarrow>
            (case byte_at config_descriptor (i + 5) of
               Inl e \<Rightarrow> Some (Inl e)
             | Inr interface_class_v \<Rightarrow>
            (case byte_at config_descriptor (i + 6) of
               Inl e \<Rightarrow> Some (Inl e)
             | Inr interface_subclass_v \<Rightarrow>
            (case byte_at config_descriptor (i + 7) of
               Inl e \<Rightarrow> Some (Inl e)
             | Inr interface_protocol_v \<Rightarrow>
                 if interface_class_v = HID_CLASS then
                   (case find_input_endpoint config_descriptor (i + descriptor_len) of
                      None \<Rightarrow> None
                    | Some (Inl e) \<Rightarrow> Some (Inl e)
                    | Some (Inr None) \<Rightarrow> Some (Inr (i + descriptor_len, hid_interfaces))
                    | Some (Inr (Some endpoint_address_v)) \<Rightarrow>
                        let info =
                          \<lparr>device = dev,
                           interface_index = interface_number,
                           endpoint_address = endpoint_address_v,
                           interface_class = interface_class_v,
                           interface_subclass = interface_subclass_v,
                           interface_protocol = interface_protocol_v,
                           vid = idVendor dev,
                           pid = idProduct dev,
                           manufacturer = getattr (manufacturer_attr dev) (PyStr ''Unknown''),
                           product = getattr (product_attr dev) (PyStr ''Unknown'')\<rparr>
                        in (case device_passes_filter f info of
                              Inl e \<Rightarrow> Some (Inl e)
                            | Inr passes \<Rightarrow>
                                Some (Inr (i + descriptor_len,
                                  if passes then hid_interfaces @ [info] else hid_interfaces))))
                 else Some (Inr (i + descriptor_len, hid_interfaces))))))
          else Some (Inr (i + descriptor_len, hid_interfaces))))"

partial_function (option) collect_hid_interfaces ::
  "filter_settings \<Rightarrow> usb_device \<Rightarrow> byte list \<Rightarrow> nat \<Rightarrow> interface_info list \<Rightarrow>
   (py_exception + interface_info list) option" where
  "collect_hid_interfaces f dev config_descriptor i hid_interfaces =
     (if i < length config_descriptor then
        (case visit_descriptor f dev config_descriptor i hid_interfaces of
           None \<Rightarrow> None
         | Some (Inl e) \<Rightarrow> Some (Inl e)
         | Some (Inr (i', hid_interfaces')) \<Rightarrow>
             collect_hid_interfaces f dev config_descriptor i' hid_interfaces')
      else Some (Inr hid_interfaces))"

text \<open>
  The key of the composite map. The f-string is broken by a backslash at the end of the
  line, so the indentation of the continuation line is part of the key: 28 spaces after the
  second colon in \<open>_analyze_device\<close>; one space before the backslash and 22 spaces of
  indentation in \<open>is_composite_device\<close> and \<open>get_companion_interfaces\<close>.
\<close>

definition hex_digit :: "nat \<Rightarrow> char" where
  "hex_digit n = ''0123456789abcdef'' ! (n mod 16)"

function to_hex :: "nat \<Rightarrow> string" where
  "to_hex n = (if n < 16 then [hex_digit n] else to_hex (n div 16) @ [hex_digit n])"
  by pat_completeness auto
termination
  by (relation "measure id") auto

declare to_hex.simps [simp del]

definition format_04x :: "nat \<Rightarrow> string" where
  "format_04x n = (let digits = to_hex n in replicate (4 - length digits) (CHR ''0'') @ digits)"

definition format_value :: "pystr \<Rightarrow> string" where
  "format_value v = (case v of PyNone \<Rightarrow> ''None'' | PyStr s \<Rightarrow> s)"

definition analysis_device_id :: "usb_device \<Rightarrow> string" where
  "analysis_device_id dev =
     format_04x (idVendor dev) @ '':'' @ format_04x (idProduct dev) @ '':'' @
     replicate 28 (CHR '' '') @ format_value (getattr (serial_number dev) (PyStr ''no_serial''))"

definition lookup_device_id :: "usb_device \<Rightarrow> string" where
  "lookup_device_id dev =
     format_04x (idVendor dev) @ '':'' @ format_04x (idProduct dev) @ '': '' @
     replicate 22 (CHR '' '') @ format_value (getattr (serial_number dev) (PyStr ''no_serial''))"

text \<open>Grouping the interfaces by their classification, in order of first appearance.\<close>

definition add_interface ::
  "(string \<times> interface_info list) list \<Rightarrow> interface_info \<Rightarrow>
   (string \<times> interface_info list) list" where
  "add_interface by_type info =
     (let interface_type = classify_hid_device info;
          present = (case map_of by_type interface_type of None \<Rightarrow> [] | Some l \<Rightarrow> l)
      in dict_set interface_type (present @ [info]) by_type)"

definition group_by_type :: "interface_info list \<Rightarrow> (string \<times> interface_info list) list" where
  "group_by_type hid_interfaces = foldl add_interface [] hid_interfaces"

text \<open>
  The loop that stores the best interface of each type. An exception leaves the cache as
  the loop has changed it so far.
\<close>

fun store_by_type ::
  "usb_device \<Rightarrow> (string \<times> interface_info list) list \<Rightarrow> device_cache \<Rightarrow>
   py_exception option \<times> device_cache" where
  "store_by_type dev [] c = (None, c)"
| "store_by_type dev ((device_type, interfaces) # rest) c =
     (case select_best_interface_for_type interfaces device_type of
        Inl e \<Rightarrow> (Some e, c)
      | Inr best_interface \<Rightarrow>
          store_by_type dev rest
            (if device_type = ''keyboard'' \<and> \<not> device_already_cached c dev ''keyboards''
               then c\<lparr>keyboards := keyboards c @ [best_interface]\<rparr>
             else if device_type = ''mouse'' \<and> \<not> device_already_cached c dev ''mice''
               then c\<lparr>mice := mice c @ [best_interface]\<rparr>
             else if device_type = ''gamepad'' \<and> \<not> device_already_cached c dev ''gamepads''
               then c\<lparr>gamepads := gamepads c @ [best_interface]\<rparr>
             else c))"

text \<open>The \<open>except\<close> clauses of \<open>_analyze_device\<close>: what is not caught propagates.\<close>

definition analyze_uncaught :: "py_exception \<Rightarrow> py_exception option" where
  "analyze_uncaught e =
     (if e = USBError \<or> e = IndexError \<or> e = AttributeError then None else Some e)"

definition analyze_device ::
  "filter_settings \<Rightarrow> usb_device \<Rightarrow> device_cache \<Rightarrow> (py_exception option \<times> device_cache) option"
  where
  "analyze_device f dev c =
     (case get_configuration_descriptor dev 0 of
        Inl e \<Rightarrow> Some (analyze_uncaught e, c)
      | Inr config_descriptor \<Rightarrow>
          (case collect_hid_interfaces f dev config_descriptor 0 [] of
             None \<Rightarrow> None
           | Some (Inl e) \<Rightarrow> Some (analyze_uncaught e, c)
           | Some (Inr hid_interfaces) \<Rightarrow>
               if hid_interfaces \<noteq> [] then
                 (let device_id = analysis_device_id dev;
                      by_type = group_by_type hid_interfaces
                  in case store_by_type dev by_type c of
                       (Some e, c') \<Rightarrow> Some (analyze_uncaught e, c')
                     | (None, c') \<Rightarrow>
                         if length by_type > 1 then
                           Some (None, c'\<lparr>composite_devices :=
                             dict_set device_id
                               \<lparr>composite_device = dev,
                                interfaces_by_type = by_type,
                                composite_product = getattr (product_attr dev) (PyStr ''Unknown''),
                                types = map fst by_type\<rparr>
                               (composite_devices c')\<rparr>)
                         else Some (None, c'))
               else Some (None, c)))"

subsection \<open>Change callbacks\<close>

text \<open>
  A registered callback is called with \<open>(device_type, action, index)\<close> and either returns
  (\<open>None\<close>) or raises an \<open>Exception\<close> (\<open>Some e\<close>). An invocation is recorded as the
  position of the callback in the list of callbacks and the three arguments.
\<close>

type_synonym callback = "string \<Rightarrow> string \<Rightarrow> nat \<Rightarrow> py_exception option"

type_synonym invocation = "nat \<times> string \<times> string \<times> nat"

text \<open>
  \<open>for callback in _device_change_callbacks: try: callback(...) except Exception: print\<close>,
  the callbacks numbered from \<open>k\<close>.
\<close>

fun run_callbacks :: "nat \<Rightarrow> callback list \<Rightarrow> string \<Rightarrow> string \<Rightarrow> nat \<Rightarrow> invocation list" where
  "run_callbacks k [] device_type action idx = []"
| "run_callbacks k (cb # cbs) device_type action idx =
     (case cb device_type action idx of
        None \<Rightarrow> (k, device_type, action, idx) # run_callbacks (Suc k) cbs device_type action idx
      | Some e \<Rightarrow> (k, device_type, action, idx) # run_callbacks (Suc k) cbs device_type action idx)"

text \<open>The body of the loop over the three plural names; \<open>device_type[:-1]\<close> is \<open>butlast\<close>.\<close>

definition notify_bucket :: "callback list \<Rightarrow> string \<Rightarrow> nat \<Rightarrow> nat \<Rightarrow> invocation list" where
  "notify_bucket callbacks device_type old_count new_count =
     (if new_count > old_count
        then run_callbacks 0 callbacks (butlast device_type) ''added'' (new_count - 1)
      else if new_count < old_count
        then run_callbacks 0 callbacks (butlast device_type) ''removed'' (old_count - 1)
      else [])"

definition bucket_count :: "device_cache \<Rightarrow> string \<Rightarrow> nat" where
  "bucket_count c device_type = (case bucket c device_type of Inl e \<Rightarrow> 0 | Inr l \<Rightarrow> length l)"

definition notify_device_changes ::
  "callback list \<Rightarrow> device_cache \<Rightarrow> device_cache \<Rightarrow> invocation list" where
  "notify_device_changes callbacks old_cache new_cache =
     concat (map (\<lambda>device_type.
         notify_bucket callbacks device_type
           (bucket_count old_cache device_type) (bucket_count new_cache device_type))
       [''keyboards'', ''mice'', ''gamepads''])"

subsection \<open>The module state and the refresh\<close>

text \<open>
  The globals of the module, the platform (the devices that
  \<open>usb.core.find(find_all=True)\<close> yields and the exception it raises after them, if any,
  and \<open>float_minus\<close>, the subtraction of its float type: \<open>float_minus s a b\<close> is the float
  that \<open>a - b\<close> evaluates to), and two observations: how many enumerations were started and
  which callbacks were called.
\<close>

record module_state =
  cache :: device_cache
  cache_timeout :: real
  device_change_callbacks :: "callback list"
  device_filters :: filter_settings
  usb_devices :: "usb_device list"
  usb_find_error :: "py_exception option"
  float_minus :: "real \<Rightarrow> real \<Rightarrow> real"
  scans :: nat
  invocations :: "invocation list"


text \<open>\<open>for device in usb.core.find(find_all=True): _analyze_device(device)\<close>.\<close>

fun scan_devices ::
  "filter_settings \<Rightarrow> usb_device list \<Rightarrow> device_cache \<Rightarrow>
   (py_exception option \<times> device_cache) option" where
  "scan_devices f [] c = Some (None, c)"
| "scan_devices f (dev # devs) c =
     (case analyze_device f dev c of
        None \<Rightarrow> None
      | Some (Some e, c') \<Rightarrow> Some (Some e, c')
      | Some (None, c') \<Rightarrow> scan_devices f devs c')"

text \<open>The \<open>except\<close> clauses around the enumeration.\<close>

definition scan_uncaught :: "py_exception \<Rightarrow> py_exception option" where
  "scan_uncaught e = (if e = USBError \<or> e = NoBackendError then None else Some e)"

text \<open>\<open>_refresh_device_cache\<close> from the snapshot of the old cache to its end.\<close>

definition rebuild_cache ::
  "real \<Rightarrow> module_state \<Rightarrow> ((py_exception + unit) \<times> module_state) option" where
  "rebuild_cache current_time s =
     (let old_cache = cache s;
          cleared = (cache s)\<lparr>keyboards := [], mice := [], gamepads := [],
                              composite_devices := []\<rparr>;
          s1 = s\<lparr>scans := Suc (scans s)\<rparr>
      in case scan_devices (device_filters s) (usb_devices s) cleared of
           None \<Rightarrow> None
         | Some (raised, c) \<Rightarrow>
             (case (case raised of Some e \<Rightarrow> scan_uncaught e
                    | None \<Rightarrow> (case usb_find_error s of None \<Rightarrow> None
                                | Some e \<Rightarrow> scan_uncaught e)) of
                Some e \<Rightarrow> Some (Inl e, s1\<lparr>cache := c\<rparr>)
              | None \<Rightarrow>
                  let c2 = c\<lparr>last_scan := Some current_time\<rparr> in
                  Some (Inr (),
                    s1\<lparr>cache := c2,
                       invocations := invocations s @
                         (if device_change_callbacks s \<noteq> []
                          then notify_device_changes (device_change_callbacks s) old_cache c2
                          else [])\<rparr>)))"

definition refresh_device_cache ::
  "bool \<Rightarrow> real \<Rightarrow> module_state \<Rightarrow> ((py_exception + unit) \<times> module_state) option" where
  "refresh_device_cache force_refresh current_time s =
     (case last_scan (cache s) of
        Some t \<Rightarrow>
          if \<not> force_refresh \<and> cache_timeout s > 0
             \<and> float_minus s current_time t < cache_timeout s
          then Some (Inr (), s)
          else rebuild_cache current_time s
      | None \<Rightarrow> rebuild_cache current_time s)"

definition force_refresh :: "real \<Rightarrow> module_state \<Rightarrow> ((py_exception + unit) \<times> module_state) option"
  where
  "force_refresh current_time s = refresh_device_cache True current_time s"

subsection \<open>Query operations\<close>

text \<open>
  Every query takes the reading of \<open>time.monotonic()\<close> that its refresh makes and the
  module state; it returns the value or the exception, and the state it leaves.
  The three \<open>count_*\<close>, \<open>get_*_info\<close> and \<open>get_*_device\<close> functions of the source differ
  in the bucket only, which is a parameter here.
\<close>

type_synonym 'a query_result = "((py_exception + 'a) \<times> module_state) option"

definition count_bucket ::
  "(device_cache \<Rightarrow> interface_info list) \<Rightarrow> bool \<Rightarrow> real \<Rightarrow> module_state \<Rightarrow> nat query_result"
  where
  "count_bucket sel refresh current_time s =
     (case refresh_device_cache refresh current_time s of
        None \<Rightarrow> None
      | Some (Inl e, s') \<Rightarrow> Some (Inl e, s')
      | Some (Inr u, s') \<Rightarrow> Some (Inr (length (sel (cache s'))), s'))"


definition count_mice :: "bool \<Rightarrow> real \<Rightarrow> module_state \<Rightarrow> nat query_result" where
  "count_mice = count_bucket mice"

definition count_gamepads :: "bool \<Rightarrow> real \<Rightarrow> module_state \<Rightarrow> nat query_result" where
  "count_gamepads = count_bucket gamepads"

text \<open>The pair \<open>(None, None)\<close> is \<open>None\<close>.\<close>

definition bucket_info ::
  "(device_cache \<Rightarrow> interface_info list) \<Rightarrow> int \<Rightarrow> real \<Rightarrow> module_state \<Rightarrow>
   (nat \<times> nat) option query_result" where
  "bucket_info sel index current_time s =
     (if index < 0 then Some (Inl IndexError, s)
      else case refresh_device_cache False current_time s of
             None \<Rightarrow> None
           | Some (Inl e, s') \<Rightarrow> Some (Inl e, s')
           | Some (Inr u, s') \<Rightarrow>
               if nat index < length (sel (cache s'))
               then let device_info = sel (cache s') ! nat index in
                    Some (Inr (Some (interface_index device_info, endpoint_address device_info)), s')
               else Some (Inr None, s'))"

definition get_keyboard_info ::
  "int \<Rightarrow> real \<Rightarrow> module_state \<Rightarrow> (nat \<times> nat) option query_result" where
  "get_keyboard_info = bucket_info keyboards"

definition get_mouse_info ::
  "int \<Rightarrow> real \<Rightarrow> module_state \<Rightarrow> (nat \<times> nat) option query_result" where
  "get_mouse_info = bucket_info mice"

definition get_gamepad_info ::
  "int \<Rightarrow> real \<Rightarrow> module_state \<Rightarrow> (nat \<times> nat) option query_result" where
  "get_gamepad_info = bucket_info gamepads"

definition bucket_device ::
  "(device_cache \<Rightarrow> interface_info list) \<Rightarrow> int \<Rightarrow> real \<Rightarrow> module_state \<Rightarrow>
   usb_device option query_result" where
  "bucket_device sel index current_time s =
     (if index < 0 then Some (Inl IndexError, s)
      else case refresh_device_cache False current_time s of
             None \<Rightarrow> None
           | Some (Inl e, s') \<Rightarrow> Some (Inl e, s')
           | Some (Inr u, s') \<Rightarrow>
               if nat index < length (sel (cache s'))
               then Some (Inr (Some (device (sel (cache s') ! nat index))), s')
               else Some (Inr None, s'))"

definition get_keyboard_device ::
  "int \<Rightarrow> real \<Rightarrow> module_state \<Rightarrow> usb_device option query_result" where
  "get_keyboard_device = bucket_device keyboards"

definition get_mouse_device ::
  "int \<Rightarrow> real \<Rightarrow> module_state \<Rightarrow> usb_device option query_result" where
  "get_mouse_device = bucket_device mice"

definition get_gamepad_device ::
  "int \<Rightarrow> real \<Rightarrow> module_state \<Rightarrow> usb_device option query_result" where
  "get_gamepad_device = bucket_device gamepads"





text \<open>
  The message of the \<open>ValueError\<close> of \<open>get_info\<close>: an f-string continued by a backslash,
  so the 26 spaces that indent the continuation line are part of it.
\<close>

definition invalid_device_type_message :: "string \<Rightarrow> string" where
  "invalid_device_type_message device_type =
     ''Invalid device_type: '' @ device_type @ ''. Must be '' @
     [CHR 0x27] @ ''keyboard'' @ [CHR 0x27] @ '', '' @ replicate 26 (CHR '' '') @
     [CHR 0x27] @ ''mouse'' @ [CHR 0x27] @ '', or '' @ [CHR 0x27] @ ''gamepad'' @ [CHR 0x27]"

definition get_info ::
  "string \<Rightarrow> int \<Rightarrow> real \<Rightarrow> module_state \<Rightarrow> (nat \<times> nat) option query_result" where
  "get_info device_type index current_time s =
     (if device_type = ''keyboard'' then get_keyboard_info index current_time s
      else if device_type = ''mouse'' then get_mouse_info index current_time s
      else if device_type = ''gamepad'' then get_gamepad_info index current_time s
      else Some (Inl (ValueError (invalid_device_type_message device_type)), s))"

text \<open>
  The first step of \<open>is_composite_device\<close>, \<open>get_companion_interfaces\<close> and
  \<open>is_device_connected\<close>: the device getter of the type; \<open>None\<close> for another name.
\<close>

definition device_getter ::
  "string \<Rightarrow> (int \<Rightarrow> real \<Rightarrow> module_state \<Rightarrow> usb_device option query_result) option" where
  "device_getter device_type =
     (if device_type = ''keyboard'' then Some get_keyboard_device
      else if device_type = ''mouse'' then Some get_mouse_device
      else if device_type = ''gamepad'' then Some get_gamepad_device
      else None)"

text \<open>
  \<open>is_composite_device\<close>. Its \<open>except Exception\<close> turns every exception of the body
  into \<open>(False, [])\<close>.
\<close>

definition is_composite_device ::
  "string \<Rightarrow> int \<Rightarrow> real \<Rightarrow> module_state \<Rightarrow> (bool \<times> string list) query_result" where
  "is_composite_device device_type index current_time s =
     (case device_getter device_type of
        None \<Rightarrow> Some (Inr (False, []), s)
      | Some getter \<Rightarrow>
          (case getter index current_time s of
             None \<Rightarrow> None
           | Some (Inl e, s') \<Rightarrow> Some (Inr (False, []), s')
           | Some (Inr None, s') \<Rightarrow> Some (Inr (False, []), s')
           | Some (Inr (Some dev), s') \<Rightarrow>
               (case map_of (composite_devices (cache s')) (lookup_device_id dev) of
                  Some composite \<Rightarrow>
                    Some (Inr (True, filter (\<lambda>t. t \<noteq> device_type) (types composite)), s')
                | None \<Rightarrow> Some (Inr (False, []), s'))))"

text \<open>
  \<open>get_companion_interfaces\<close>: the dictionary of companions is an association list from
  the companion type to its best interface (whose \<open>interface_index\<close> and
  \<open>endpoint_address\<close> the source copies beside it), filled in the order of the loop over
  \<open>interfaces_by_type\<close>, from the empty dictionary.
\<close>

fun companions_of ::
  "string \<Rightarrow> (string \<times> interface_info list) list \<Rightarrow> (string \<times> interface_info) list \<Rightarrow>
   py_exception + (string \<times> interface_info) list"
  where
  "companions_of device_type [] companions = Inr companions"
| "companions_of device_type ((companion_type, interfaces) # rest) companions =
     (if companion_type \<noteq> device_type then
        (case select_best_interface_for_type interfaces companion_type of
           Inl e \<Rightarrow> Inl e
         | Inr best_interface \<Rightarrow>
             companions_of device_type rest
               (dict_set companion_type best_interface companions))
      else companions_of device_type rest companions)"

definition get_companion_interfaces ::
  "string \<Rightarrow> int \<Rightarrow> real \<Rightarrow> module_state \<Rightarrow> (string \<times> interface_info) list query_result" where
  "get_companion_interfaces device_type index current_time s =
     (case device_getter device_type of
        None \<Rightarrow> Some (Inr [], s)
      | Some getter \<Rightarrow>
          (case getter index current_time s of
             None \<Rightarrow> None
           | Some (Inl e, s') \<Rightarrow> Some (Inr [], s')
           | Some (Inr None, s') \<Rightarrow> Some (Inr [], s')
           | Some (Inr (Some dev), s') \<Rightarrow>
               (case map_of (composite_devices (cache s')) (lookup_device_id dev) of
                  Some composite \<Rightarrow>
                    (case companions_of device_type (interfaces_by_type composite) [] of
                       Inl e \<Rightarrow> Some (Inr [], s')
                     | Inr companions \<Rightarrow> Some (Inr companions, s'))
                | None \<Rightarrow> Some (Inr [], s'))))"

definition is_device_connected ::
  "string \<Rightarrow> int \<Rightarrow> real \<Rightarrow> module_state \<Rightarrow> bool query_result" where
  "is_device_connected device_type index current_time s =
     (case device_getter device_type of
        None \<Rightarrow> Some (Inr False, s)
      | Some getter \<Rightarrow>
          (case getter index current_time s of
             None \<Rightarrow> None
           | Some (Inl e, s') \<Rightarrow> Some (Inr False, s')
           | Some (Inr None, s') \<Rightarrow> Some (Inr False, s')
           | Some (Inr (Some dev), s') \<Rightarrow>
               (case get_device_descriptor dev of
                  Inl e \<Rightarrow> Some (Inr False, s')
                | Inr desc \<Rightarrow> Some (Inr (length desc = 18), s'))))"

section \<open>The classifier as the specification words it\<close>

text \<open>
  The four stages of the decision order, written from the specification rather than from
  the code, for comparison with \<open>classify_hid_device\<close>: a case-insensitive substring match
  is a contiguous-sublist test on the lowered strings, the keyword classes are sets, and the
  product string is used as it is (an absent one is empty). The tables of known ids are the
  code's.
\<close>

definition mentions :: "string set \<Rightarrow> string \<Rightarrow> bool" where
  "mentions keywords name = (\<exists>keyword \<in> keywords. sublist (lower keyword) (lower name))"

definition classify_spec :: "interface_info \<Rightarrow> string" where
  "classify_spec info =
     (let name = (case product info of PyNone \<Rightarrow> [] | PyStr p \<Rightarrow> p);
          ident = (vid info, pid info)
      in if interface_subclass info = 1 \<and> interface_protocol info = 1 then ''keyboard''
         else if interface_subclass info = 1 \<and> interface_protocol info = 2 then ''mouse''
         else if mentions {''keyboard'', ''kbd'', ''keypad''} name then ''keyboard''
         else if mentions {''mouse'', ''pointer'', ''trackball'', ''touchpad'', ''trackpad''} name
           then ''mouse''
         else if mentions {''gamepad'', ''controller'', ''joystick'', ''xbox'', ''playstation'',
                           ''ps3'', ''ps4'', ''ps5''} name then ''gamepad''
         else if ident \<in> set known_keyboards then ''keyboard''
         else if ident \<in> set known_mice then ''mouse''
         else if ident \<in> set known_gamepads then ''gamepad''
         else ''gamepad'')"

section \<open>The bounded sub-scan as the specification words it\<close>

text \<open>
  The sub-scan for the endpoint of an interface moves from record to record by the
  declared lengths. \<open>walks_to cd i j\<close>: a cursor started at \<open>i\<close> arrives at \<open>j\<close>, every
  record it passed being readable, not an interface descriptor and not an input endpoint.
  At \<open>j\<close> the scan sees an input endpoint (type 5 with bit 7 of the address set), the next
  interface descriptor (type 4), or the end of the blob.
\<close>

definition skipped_at :: "byte list \<Rightarrow> nat \<Rightarrow> bool" where
  "skipped_at cd i =
     (i + 1 < length cd \<and> unat (cd ! (i + 1)) \<noteq> 4 \<and>
      (unat (cd ! (i + 1)) = 5 \<longrightarrow> i + 2 < length cd \<and> unat (cd ! (i + 2)) AND 128 = 0))"

inductive walks_to :: "byte list \<Rightarrow> nat \<Rightarrow> nat \<Rightarrow> bool" for cd :: "byte list" where
  here: "walks_to cd i i"
| step: "skipped_at cd i \<Longrightarrow> walks_to cd (i + unat (cd ! i)) j \<Longrightarrow> walks_to cd i j"

code_pred walks_to .

definition in_endpoint_at :: "byte list \<Rightarrow> nat \<Rightarrow> bool" where
  "in_endpoint_at cd j =
     (j + 2 < length cd \<and> unat (cd ! (j + 1)) = 5 \<and> unat (cd ! (j + 2)) AND 128 \<noteq> 0)"

definition interface_at :: "byte list \<Rightarrow> nat \<Rightarrow> bool" where
  "interface_at cd j = (j + 1 < length cd \<and> unat (cd ! (j + 1)) = 4)"

section \<open>The notifications of a changed bucket, as amended\<close>

text \<open>
  What one bucket whose size went from \<open>old_count\<close> to \<open>new_count\<close> makes each of
  \<open>n\<close> callbacks receive, without the first argument: one call per callback, in
  registration order, if the size changed at all.
\<close>

definition expected_calls :: "nat \<Rightarrow> nat \<Rightarrow> nat \<Rightarrow> (nat \<times> string \<times> nat) list" where
  "expected_calls n old_count new_count =
     (if old_count < new_count then map (\<lambda>k. (k, ''added'', new_count - 1)) [0..<n]
      else if new_count < old_count then map (\<lambda>k. (k, ''removed'', old_count - 1)) [0..<n]
      else [])"

section \<open>The cache states, as the specification words them\<close>


definition cleared :: "device_cache \<Rightarrow> device_cache" where
  "cleared c = c\<lparr>keyboards := [], mice := [], gamepads := [], composite_devices := []\<rparr>"





section \<open>Example devices\<close>

text \<open>
  A well-behaved device: it answers a request for the configuration descriptor (\<open>wValue\<close>
  \<open>0x0200\<close>) with the front of its configuration blob, as much as the buffer holds, and a
  request for the device descriptor (\<open>wValue\<close> \<open>0x0100\<close>) with 18 bytes.
\<close>

definition simple_device :: "nat \<Rightarrow> nat \<Rightarrow> pystr option \<Rightarrow> string \<Rightarrow> byte list \<Rightarrow> usb_device" where
  "simple_device v p serial name blob =
     \<lparr>idVendor = v, idProduct = p, serial_number = serial,
      manufacturer_attr = Some (PyStr ''Acme''), product_attr = Some (PyStr name),
      ctrl_transfer = (\<lambda>request_type request wValue wIndex n.
         if wValue = 512 then Inr (int (min n (length blob)), take n blob)
         else if wValue = 256 then Inr (int (min n 18), take n (replicate 18 0))
         else Inl USBError)\<rparr>"

text \<open>A configuration with one boot keyboard interface and its input endpoint \<open>0x81\<close>.\<close>

definition keyboard_blob :: "byte list" where
  "keyboard_blob =
     [9, 2, 25, 0, 1, 1, 0, 128, 50,
      9, 4, 0, 0, 1, 3, 1, 1, 0,
      7, 5, 129, 3, 8, 0, 10]"

text \<open>
  A device that reports 10 bytes for the 9-byte probe of its configuration descriptor and
  is exact otherwise, and one that reports 8 bytes for it.
\<close>

definition overreporting_device :: usb_device where
  "overreporting_device =
     \<lparr>idVendor = 4660, idProduct = 1, serial_number = None,
      manufacturer_attr = Some (PyStr ''Acme''), product_attr = Some (PyStr ''Keys''),
      ctrl_transfer = (\<lambda>request_type request wValue wIndex n.
         Inr (if n = 9 then 10 else int (min n 25), take n keyboard_blob))\<rparr>"

definition short_probe_device :: usb_device where
  "short_probe_device =
     \<lparr>idVendor = 4660, idProduct = 3, serial_number = None,
      manufacturer_attr = Some (PyStr ''Acme''), product_attr = Some (PyStr ''Keys''),
      ctrl_transfer = (\<lambda>request_type request wValue wIndex n.
         Inr (int (min n 8), take 8 keyboard_blob))\<rparr>"

definition keyboard_device :: usb_device where
  "keyboard_device = simple_device 1133 1 None ''Keys'' keyboard_blob"

definition second_keyboard_device :: usb_device where
  "second_keyboard_device = simple_device 1133 7 None ''Keys'' keyboard_blob"

text \<open>The interface records that the analysis builds for the two keyboards.\<close>

definition acme_keyboard_info :: interface_info where
  "acme_keyboard_info =
     \<lparr>device = keyboard_device,
      interface_index = 0, endpoint_address = 129, interface_class = 3,
      interface_subclass = 1, interface_protocol = 1, vid = 1133, pid = 1,
      manufacturer = PyStr ''Acme'', product = PyStr ''Keys''\<rparr>"

text \<open>A vendor-specific-looking HID interface whose product string names a trackpad.\<close>

definition trackpad_info :: interface_info where
  "trackpad_info =
     \<lparr>device = simple_device 1133 2 None ''Precision TrackPad'' keyboard_blob,
      interface_index = 1, endpoint_address = 130, interface_class = 3,
      interface_subclass = 0, interface_protocol = 0, vid = 1133, pid = 2,
      manufacturer = PyStr ''Acme'', product = PyStr ''Precision TrackPad''\<rparr>"

text \<open>
  A composite device: a boot keyboard interface (number 0, input endpoint \<open>0x81\<close>) and a
  boot mouse interface (number 1, input endpoint \<open>0x82\<close>), each with its HID class
  descriptor (type \<open>0x21\<close>) before the endpoint.
\<close>

definition composite_blob :: "byte list" where
  "composite_blob =
     [9, 2, 59, 0, 2, 1, 0, 160, 50,
      9, 4, 0, 0, 1, 3, 1, 1, 0,
      9, 33, 17, 1, 0, 1, 34, 63, 0,
      7, 5, 129, 3, 8, 0, 10,
      9, 4, 1, 0, 1, 3, 1, 2, 0,
      9, 33, 17, 1, 0, 1, 34, 52, 0,
      7, 5, 130, 3, 4, 0, 10]"

definition combo_device :: usb_device where
  "combo_device = simple_device 1133 49195 None ''Combo'' composite_blob"

text \<open>
  A configuration whose first HID interface has an output endpoint only; the input endpoint
  \<open>0x82\<close> belongs to the second interface.
\<close>

definition out_only_blob :: "byte list" where
  "out_only_blob =
     [9, 2, 41, 0, 2, 1, 0, 160, 50,
      9, 4, 0, 0, 1, 3, 0, 0, 0,
      7, 5, 1, 3, 8, 0, 10,
      9, 4, 1, 0, 1, 3, 1, 2, 0,
      7, 5, 130, 3, 4, 0, 10]"

text \<open>
  A device whose configuration descriptor is followed by a record of declared length 0.
\<close>

definition zero_length_blob :: "byte list" where
  "zero_length_blob = [9, 2, 11, 0, 1, 1, 0, 128, 50, 0, 0]"

definition zero_length_device :: usb_device where
  "zero_length_device = simple_device 4660 2 None ''Broken'' zero_length_blob"

text \<open>
  The module as imported, with the given devices on the bus. The clock readings of the
  examples are 0, 1/2 and 1, whose differences every binary float format represents, so
  the float subtraction of the examples is the exact one.
\<close>

definition state_with :: "usb_device list \<Rightarrow> module_state" where
  "state_with devs =
     \<lparr>cache = initial_cache, cache_timeout = 1, device_change_callbacks = [],
      device_filters = initial_filters, usb_devices = devs, usb_find_error = None,
      float_minus = (\<lambda>a b. a - b), scans = 0, invocations = []\<rparr>"

text \<open>The two interface records of \<open>combo_device\<close> and the state after one scan of it.\<close>

definition combo_keyboard_if :: interface_info where
  "combo_keyboard_if =
     \<lparr>device = combo_device, interface_index = 0, endpoint_address = 129,
      interface_class = 3, interface_subclass = 1, interface_protocol = 1,
      vid = 1133, pid = 49195, manufacturer = PyStr ''Acme'', product = PyStr ''Combo''\<rparr>"

definition combo_mouse_if :: interface_info where
  "combo_mouse_if =
     \<lparr>device = combo_device, interface_index = 1, endpoint_address = 130,
      interface_class = 3, interface_subclass = 1, interface_protocol = 2,
      vid = 1133, pid = 49195, manufacturer = PyStr ''Acme'', product = PyStr ''Combo''\<rparr>"

definition combo_record :: composite_info where
  "combo_record =
     \<lparr>composite_device = combo_device,
      interfaces_by_type = [(''keyboard'', [combo_keyboard_if]), (''mouse'', [combo_mouse_if])],
      composite_product = PyStr ''Combo'',
      types = [''keyboard'', ''mouse'']\<rparr>"

definition combo_scan :: "device_cache \<Rightarrow> device_cache" where
  "combo_scan c =
     c\<lparr>keyboards := [combo_keyboard_if], mice := [combo_mouse_if], gamepads := [],
       composite_devices := [(analysis_device_id combo_device, combo_record)]\<rparr>"

definition combo_scanned :: "real \<Rightarrow> module_state" where
  "combo_scanned t =
     (state_with [combo_device])
       \<lparr>cache := (combo_scan initial_cache)\<lparr>last_scan := Some t\<rparr>, scans := 1\<rparr>"

text \<open>Two callbacks, one that returns and one that raises, and a second keyboard.\<close>

definition quiet_callback :: callback where
  "quiet_callback = (\<lambda>device_type action idx. None)"

definition failing_callback :: callback where
  "failing_callback = (\<lambda>device_type action idx. Some KeyError)"

definition second_keyboard_info :: interface_info where
  "second_keyboard_info = acme_keyboard_info\<lparr>device := second_keyboard_device, pid := 7\<rparr>"

definition two_keyboards_cache :: device_cache where
  "two_keyboards_cache = initial_cache\<lparr>keyboards := [acme_keyboard_info, second_keyboard_info]\<rparr>"

text \<open>
  A bus with the two keyboards and one registered callback, before any scan and after the
  scan at time 0.
\<close>

definition two_keyboards_plugged :: module_state where
  "two_keyboards_plugged =
     (state_with [keyboard_device, second_keyboard_device])
       \<lparr>device_change_callbacks := [quiet_callback]\<rparr>"

definition two_keyboards_scanned :: module_state where
  "two_keyboards_scanned =
     two_keyboards_plugged
       \<lparr>cache := two_keyboards_cache\<lparr>last_scan := Some 0\<rparr>, scans := 1,
         invocations := [(0, ''keyboard'', ''added'', 1)]\<rparr>"





section \<open>Verified properties\<close>

subsection \<open>Device filters\<close>

text \<open>
  C10. After \<open>set_device_filter\<close> with an empty \<open>allowed_vids\<close>, the allow test on the
  vendor id rejects no device: the empty set is false, so the membership test is not reached
  and the filter answers as it does with no allow-list at all. The same holds for an empty
  \<open>allowed_manufacturers\<close>.
\<close>

theorem empty_allow_list_allows_all:
  "\<not> set_and_not_in (allowed_vids (set_device_filter (Some {}) bv am bm f)) v
   \<and> \<not> set_and_not_in (allowed_manufacturers (set_device_filter av bv (Some {}) bm f)) m
   \<and> device_passes_filter (set_device_filter (Some {}) None None None f) info
       = device_passes_filter (f\<lparr>allowed_vids := None\<rparr>) info
   \<and> device_passes_filter (set_device_filter None None (Some {}) None f) info
       = device_passes_filter (f\<lparr>allowed_manufacturers := None\<rparr>) info"
proof -
  have a: "\<not> set_and_not_in (allowed_vids (set_device_filter (Some {}) bv am bm f)) v"
    by (cases bv; cases am; cases bm)
       (simp_all add: set_device_filter_def set_and_not_in_def Let_def)
  have b: "\<not> set_and_not_in (allowed_manufacturers (set_device_filter av bv (Some {}) bm f)) m"
    by (cases av; cases bv; cases bm)
       (simp_all add: set_device_filter_def set_and_not_in_def Let_def)
  have c: "device_passes_filter (set_device_filter (Some {}) None None None f) info
             = device_passes_filter (f\<lparr>allowed_vids := None\<rparr>) info"
    by (cases "manufacturer info")
       (simp_all add: device_passes_filter_def set_device_filter_def set_and_not_in_def Let_def)
  have d: "device_passes_filter (set_device_filter None None (Some {}) None f) info
             = device_passes_filter (f\<lparr>allowed_manufacturers := None\<rparr>) info"
    by (cases "manufacturer info")
       (simp_all add: device_passes_filter_def set_device_filter_def set_and_not_in_def Let_def)
  from a b c d show ?thesis by blast
qed

theorem empty_allow_list_allows_all_witness:
  "device_passes_filter (set_device_filter (Some {}) None None None initial_filters)
     acme_keyboard_info = Inr True
   \<and> device_passes_filter (set_device_filter None None (Some {}) None initial_filters)
     acme_keyboard_info = Inr True"
  using empty_allow_list_allows_all [where f = initial_filters and info = acme_keyboard_info
          and bv = None and am = None and bm = None and av = None and v = 1133 and m = "''acme''"]
  by (simp add: device_passes_filter_def initial_filters_def acme_keyboard_info_def
        set_device_filter_def set_and_not_in_def Let_def)

subsection \<open>Descriptor fetcher\<close>

lemma total_length_little_endian:
  "push_bit 8 (unat (hi :: byte)) OR unat (lo :: byte) = unat lo + 256 * unat hi"
proof -
  have lo_small: "take_bit 8 (unat lo) = unat lo"
    using unsigned_less [of lo, where ?'a = nat] by (simp add: take_bit_nat_eq_self)
  have "\<not> bit (push_bit 8 (unat hi)) n \<or> \<not> bit (unat lo) n" for n
  proof (cases "n < 8")
    case True
    then show ?thesis by (simp add: bit_push_bit_iff)
  next
    case False
    have "bit (unat lo) n = bit (take_bit 8 (unat lo)) n" by (simp add: lo_small)
    with False show ?thesis by (simp add: bit_take_bit_iff)
  qed
  then have "push_bit 8 (unat hi) + unat lo = push_bit 8 (unat hi) OR unat lo"
    by (rule disjunctive_add)
  then show ?thesis by (simp add: push_bit_eq_mult)
qed

lemma length_fill_buffer: "length (fill_buffer n written) = n"
  by (simp add: fill_buffer_def)

text \<open>
  C5, as the code has it. The fetch first asks for exactly 9 bytes. It fails with the
  length error when that transfer reports fewer than 9 bytes; a larger count is accepted.
  Otherwise \<open>wTotalLength\<close> is the little-endian 16-bit value at offsets 2 and 3 of the
  9-byte buffer, the second request asks for exactly that many bytes, and the fetch fails
  with the length error exactly when the second transfer reports another count.
\<close>

theorem configuration_fetch_lengths:
  assumes probe: "ctrl_transfer dev 128 6 (push_bit 8 2 OR index) 0 9 = Inr (n1, written1)"
    and total: "wTotalLength =
        unat (fill_buffer 9 written1 ! 2) + 256 * unat (fill_buffer 9 written1 ! 3)"
  shows "(n1 < 9 \<longrightarrow> get_configuration_descriptor dev index
             = Inl (ValueError ''Invalid configuration descriptor length''))
       \<and> (9 \<le> n1 \<longrightarrow> ctrl_transfer dev 128 6 (push_bit 8 2 OR index) 0 wTotalLength = Inr (n2, written2) \<longrightarrow>
            get_configuration_descriptor dev index
              = (if n2 = int wTotalLength then Inr (fill_buffer wTotalLength written2)
                 else Inl (ValueError ''Configuration descriptor length mismatch'')))"
proof -
  have first: "get_descriptor dev 2 index 9 0 = Inr (n1, fill_buffer 9 written1)"
    using probe by (simp add: get_descriptor_def)
  have tl: "push_bit 8 (unat (fill_buffer 9 written1 ! 3)) OR unat (fill_buffer 9 written1 ! 2)
              = wTotalLength"
    by (simp add: total total_length_little_endian)
  show ?thesis
  proof (intro conjI impI)
    assume "n1 < 9"
    then show "get_configuration_descriptor dev index
                 = Inl (ValueError ''Invalid configuration descriptor length'')"
      by (simp add: get_configuration_descriptor_def first)
  next
    assume ge: "9 \<le> n1"
      and second: "ctrl_transfer dev 128 6 (push_bit 8 2 OR index) 0 wTotalLength = Inr (n2, written2)"
    have "get_descriptor dev 2 index wTotalLength 0 = Inr (n2, fill_buffer wTotalLength written2)"
      using second by (simp add: get_descriptor_def)
    with ge show "get_configuration_descriptor dev index
              = (if n2 = int wTotalLength then Inr (fill_buffer wTotalLength written2)
                 else Inl (ValueError ''Configuration descriptor length mismatch''))"
      by (simp add: get_configuration_descriptor_def first tl Let_def)
  qed
qed

lemma simple_device_configuration:
  "length blob = unat (blob ! 2) + 256 * unat (blob ! 3) \<Longrightarrow> 9 \<le> length blob \<Longrightarrow>
   get_configuration_descriptor (simple_device v p serial name blob) 0 = Inr blob"
  by (simp add: get_configuration_descriptor_def get_descriptor_def simple_device_def
        fill_buffer_def total_length_little_endian Let_def)

theorem configuration_fetch_lengths_witness:
  "get_configuration_descriptor (simple_device 1133 1 None ''Keys'' keyboard_blob) 0
     = Inr keyboard_blob
   \<and> get_configuration_descriptor short_probe_device 0
     = Inl (ValueError ''Invalid configuration descriptor length'')"
proof -
  have short: "ctrl_transfer short_probe_device 128 6 (push_bit 8 2 OR 0) 0 9
                 = Inr (8, take 8 keyboard_blob)"
    by (simp add: short_probe_device_def)
  have failed: "get_configuration_descriptor short_probe_device 0
                  = Inl (ValueError ''Invalid configuration descriptor length'')"
    using configuration_fetch_lengths [OF short refl] by simp
  let ?dev = "simple_device 1133 1 None ''Keys'' keyboard_blob"
  have probe: "ctrl_transfer ?dev 128 6 (push_bit 8 2 OR 0) 0 9 = Inr (9, take 9 keyboard_blob)"
    by (simp add: simple_device_def keyboard_blob_def)
  have total: "25 = unat (fill_buffer 9 (take 9 keyboard_blob) ! 2)
                  + 256 * unat (fill_buffer 9 (take 9 keyboard_blob) ! 3)"
    by (simp add: keyboard_blob_def fill_buffer_def)
  have full: "ctrl_transfer ?dev 128 6 (push_bit 8 2 OR 0) 0 25 = Inr (25, keyboard_blob)"
    by (simp add: simple_device_def keyboard_blob_def)
  have "fill_buffer 25 keyboard_blob = keyboard_blob"
    by (simp add: keyboard_blob_def fill_buffer_def)
  with configuration_fetch_lengths [OF probe total, of 25 keyboard_blob] full failed
  show ?thesis by simp
qed

text \<open>
  The claim as stated fails: a device that reports 10 bytes for the 9-byte probe is
  accepted, and the fetch succeeds.
\<close>

theorem overreported_probe_accepted:
  "ctrl_transfer overreporting_device 128 6 (push_bit 8 2 OR 0) 0 9
     = Inr (10, take 9 keyboard_blob)
   \<and> get_configuration_descriptor overreporting_device 0 = Inr keyboard_blob"
  by (simp add: get_configuration_descriptor_def get_descriptor_def overreporting_device_def
        keyboard_blob_def fill_buffer_def Let_def)

subsection \<open>Classification\<close>

lemma str_in_sublist: "str_in keyword s = sublist keyword s"
  by (induction s) (auto simp: sublist_Cons_right)

lemma lower_char_idem: "lower_char (lower_char c) = lower_char c"
  by (simp add: lower_char_def)

lemma lower_idem: "lower (lower s) = lower s"
  by (simp add: lower_def lower_char_idem)

lemma keyboard_keyword_hit:
  "list_ex (\<lambda>keyword. str_in keyword s) keyboard_keywords
     = (\<exists>keyword \<in> {''keyboard'', ''kbd'', ''keypad''}. sublist (lower keyword) s)"
  by (simp add: keyboard_keywords_def str_in_sublist lower_def lower_char_def)

lemma mouse_keyword_hit:
  "list_ex (\<lambda>keyword. str_in keyword s) mouse_keywords
     = (\<exists>keyword \<in> {''mouse'', ''pointer'', ''trackball'', ''touchpad'', ''trackpad''}.
          sublist (lower keyword) s)"
  by (simp add: mouse_keywords_def str_in_sublist lower_def lower_char_def)

lemma gamepad_keyword_hit:
  "list_ex (\<lambda>keyword. str_in keyword s) gamepad_keywords
     = (\<exists>keyword \<in> {''gamepad'', ''controller'', ''joystick'', ''xbox'', ''playstation'',
                       ''ps3'', ''ps4'', ''ps5''}. sublist (lower keyword) s)"
  by (simp add: gamepad_keywords_def str_in_sublist lower_def lower_char_def)

lemma classify_heuristics_stages:
  "classify_heuristics s v p =
     (if mentions {''keyboard'', ''kbd'', ''keypad''} s then ''keyboard''
      else if mentions {''mouse'', ''pointer'', ''trackball'', ''touchpad'', ''trackpad''} s
        then ''mouse''
      else if mentions {''gamepad'', ''controller'', ''joystick'', ''xbox'', ''playstation'',
                        ''ps3'', ''ps4'', ''ps5''} s then ''gamepad''
      else if (v, p) \<in> set known_keyboards then ''keyboard''
      else if (v, p) \<in> set known_mice then ''mouse''
      else if (v, p) \<in> set known_gamepads then ''gamepad''
      else ''gamepad'')"
  unfolding classify_heuristics_def Let_def keyboard_keyword_hit mouse_keyword_hit
    gamepad_keyword_hit mentions_def
  by simp

lemma mentions_lower: "mentions keywords (lower s) = mentions keywords s"
  by (simp add: mentions_def lower_idem)

text \<open>
  C6. The classification of an interface record follows the four stages in order, the
  first match winning: the boot-protocol shortcut (subclass 1 with protocol 1 is a keyboard,
  with protocol 2 a mouse); then the case-insensitive substring match of the product string
  against the keyboard, the mouse and the gamepad keywords, in that order; then the tables
  of known vendor and product ids; then gamepad.
\<close>

theorem classify_follows_decision_order: "classify_hid_device info = classify_spec info"
proof (cases "product info")
  case PyNone
  then show ?thesis
    by (simp add: classify_hid_device_def classify_spec_def classify_heuristics_stages Let_def)
next
  case (PyStr p)
  then show ?thesis
    by (cases "p = []")
       (simp_all add: classify_hid_device_def classify_spec_def classify_heuristics_stages
          Let_def mentions_lower)
qed

theorem classify_follows_decision_order_witness:
  "classify_spec acme_keyboard_info = ''keyboard'' \<and> classify_spec trackpad_info = ''mouse''"
proof -
  have "classify_hid_device acme_keyboard_info = ''keyboard''"
    by (simp add: classify_hid_device_def acme_keyboard_info_def)
  moreover have "classify_hid_device trackpad_info = ''mouse''"
    by (simp add: classify_hid_device_def classify_heuristics_def trackpad_info_def
          keyboard_keywords_def mouse_keywords_def lower_def lower_char_def)
  ultimately show ?thesis
    using classify_follows_decision_order [of acme_keyboard_info]
      classify_follows_decision_order [of trackpad_info]
    by simp
qed

subsection \<open>The input endpoint of an interface\<close>

lemma find_loop_skip:
  "skipped_at cd i \<Longrightarrow> find_loop cd i = find_loop cd (i + unat (cd ! i))"
  by (subst find_loop.simps) (auto simp: skipped_at_def byte_at_def)

lemma find_loop_in_endpoint:
  "in_endpoint_at cd j \<Longrightarrow> find_loop cd j = Some (Inr (Some (unat (cd ! (j + 2)))))"
  by (subst find_loop.simps) (auto simp: in_endpoint_at_def byte_at_def)

lemma find_loop_interface: "interface_at cd j \<Longrightarrow> find_loop cd j = Some (Inr None)"
  by (subst find_loop.simps) (auto simp: interface_at_def byte_at_def)

lemma find_loop_end: "length cd \<le> j \<Longrightarrow> find_loop cd j = Some (Inr None)"
  by (subst find_loop.simps) auto

text \<open>
  C9. When the scan started at \<open>start\<close> comes to an input endpoint before any interface
  descriptor and before the end of the blob, the search returns the address of that
  endpoint, the first one; when it comes to an interface descriptor or to the end of the
  blob first, it returns no endpoint, whatever endpoints follow the interface boundary.
\<close>

theorem find_input_endpoint_first_before_boundary:
  assumes "walks_to cd start j"
  shows "(in_endpoint_at cd j \<longrightarrow>
            find_input_endpoint cd start = Some (Inr (Some (unat (cd ! (j + 2))))))
       \<and> (interface_at cd j \<or> length cd \<le> j \<longrightarrow>
            find_input_endpoint cd start = Some (Inr None))"
  using assms
proof (induction rule: walks_to.induct)
  case (here i)
  show ?case
    by (auto simp: find_input_endpoint_def find_loop_in_endpoint find_loop_interface
          find_loop_end)
next
  case (step i j)
  then show ?case
    by (simp add: find_input_endpoint_def find_loop_skip)
qed

theorem find_input_endpoint_first_before_boundary_witness:
  "find_input_endpoint composite_blob 18 = Some (Inr (Some 129))
   \<and> find_input_endpoint out_only_blob 18 = Some (Inr None)"
proof -
  have "walks_to composite_blob 27 27" by (rule walks_to.here)
  then have w1: "walks_to composite_blob 18 27"
    using walks_to.step [of composite_blob 18 27]
    by (simp add: skipped_at_def composite_blob_def)
  have e1: "in_endpoint_at composite_blob 27"
    by (simp add: in_endpoint_at_def composite_blob_def)
  have "walks_to out_only_blob 25 25" by (rule walks_to.here)
  then have w2: "walks_to out_only_blob 18 25"
    using walks_to.step [of out_only_blob 18 25]
    by (simp add: skipped_at_def out_only_blob_def)
  have e2: "interface_at out_only_blob 25"
    by (simp add: interface_at_def out_only_blob_def)
  have "unat (composite_blob ! (27 + 2)) = 129"
    by (simp add: composite_blob_def)
  with find_input_endpoint_first_before_boundary [OF w1] e1
    find_input_endpoint_first_before_boundary [OF w2] e2
  show ?thesis by simp
qed

subsection \<open>A record of declared length 0\<close>

lemma collect_stuck: "collect_hid_interfaces f dev zero_length_blob 9 hid = None"
proof -
  have "collect_hid_interfaces f dev cd i hid = Some y \<Longrightarrow> \<not> (cd = zero_length_blob \<and> i = 9)"
    for cd i y f dev hid
    by (rule collect_hid_interfaces.raw_induct
          [where P = "\<lambda>f dev cd i hid y. \<not> (cd = zero_length_blob \<and> i = 9)"])
       (auto simp: visit_descriptor_def byte_at_def zero_length_blob_def
          split: if_splits sum.splits option.splits; blast)
  then have "collect_hid_interfaces f dev zero_length_blob 9 hid \<noteq> Some y" for y
    by blast
  then show ?thesis
    by (cases "collect_hid_interfaces f dev zero_length_blob 9 hid") auto
qed

lemma collect_zero_length: "collect_hid_interfaces f dev zero_length_blob 0 [] = None"
  by (subst collect_hid_interfaces.simps)
     (simp add: visit_descriptor_def byte_at_def zero_length_blob_def
        collect_stuck [unfolded zero_length_blob_def])

lemma zero_length_configuration:
  "get_configuration_descriptor zero_length_device 0 = Inr zero_length_blob"
  unfolding zero_length_device_def
  by (rule simple_device_configuration) (simp_all add: zero_length_blob_def)

text \<open>
  C2 fails on the code. The device \<open>zero_length_device\<close> answers both transfers
  correctly; the record at offset 9 of its configuration declares length 0. The walk of
  \<open>_analyze_device\<close> adds 0 to its index for ever: the analysis does not return, and neither
  does a refresh of a bus that holds this device before a keyboard.
\<close>

theorem zero_length_descriptor_never_returns:
  "analyze_device initial_filters zero_length_device initial_cache = None
   \<and> force_refresh 0 (state_with [zero_length_device, keyboard_device]) = None"
proof -
  have a: "analyze_device f zero_length_device c = None" for f c
    by (simp add: analyze_device_def zero_length_configuration collect_zero_length)
  then show ?thesis
    by (simp add: force_refresh_def refresh_device_cache_def rebuild_cache_def state_with_def
          initial_cache_def Let_def)
qed

subsection \<open>Composite devices\<close>

lemma length_format_ids:
  "length (analysis_device_id dev) = length (lookup_device_id dev) + 5"
  by (simp add: analysis_device_id_def lookup_device_id_def)

lemma device_id_mismatch: "analysis_device_id dev \<noteq> lookup_device_id dev"
  using length_format_ids [of dev] by auto

lemma combo_configuration: "get_configuration_descriptor combo_device 0 = Inr composite_blob"
  unfolding combo_device_def
  by (rule simple_device_configuration) (simp_all add: composite_blob_def)

lemma combo_endpoints:
  "find_input_endpoint composite_blob 18 = Some (Inr (Some 129))"
  "find_input_endpoint composite_blob 43 = Some (Inr (Some 130))"
  by (simp_all add: find_input_endpoint_def find_loop.simps byte_at_def composite_blob_def)

lemma combo_interfaces:
  "collect_hid_interfaces initial_filters combo_device composite_blob 0 []
     = Some (Inr [combo_keyboard_if, combo_mouse_if])"
  by (simp add: collect_hid_interfaces.simps visit_descriptor_def byte_at_def
        combo_endpoints [unfolded composite_blob_def] composite_blob_def
        device_passes_filter_def initial_filters_def set_and_not_in_def Let_def getattr_def
        combo_keyboard_if_def combo_mouse_if_def combo_device_def simple_device_def)

lemma combo_groups:
  "group_by_type [combo_keyboard_if, combo_mouse_if]
     = [(''keyboard'', [combo_keyboard_if]), (''mouse'', [combo_mouse_if])]"
  by (simp add: group_by_type_def add_interface_def classify_hid_device_def
        combo_keyboard_if_def combo_mouse_if_def Let_def)

lemma combo_best:
  "select_best_interface_for_type [combo_keyboard_if] ''keyboard'' = Inr combo_keyboard_if"
  "select_best_interface_for_type [combo_mouse_if] ''mouse'' = Inr combo_mouse_if"
  by (simp_all add: select_best_interface_for_type_def combo_keyboard_if_def
        combo_mouse_if_def Let_def)

lemma analyze_combo:
  assumes "keyboards c = []" "mice c = []" "gamepads c = []" "composite_devices c = []"
  shows "analyze_device initial_filters combo_device c = Some (None, combo_scan c)"
  using assms
  by (simp add: analyze_device_def combo_configuration combo_interfaces combo_groups
        combo_best Let_def device_already_cached_def bucket_def combo_scan_def combo_record_def
        getattr_def)
     (simp add: combo_device_def simple_device_def)

lemma refresh_combo:
  "force_refresh t (state_with [combo_device]) = Some (Inr (), combo_scanned t)"
  by (simp add: force_refresh_def refresh_device_cache_def rebuild_cache_def state_with_def
        initial_cache_def analyze_combo Let_def combo_scanned_def combo_scan_def)

lemma combo_still_fresh:
  "refresh_device_cache False (1 / 2) (combo_scanned 0) = Some (Inr (), combo_scanned 0)"
  by (simp add: refresh_device_cache_def combo_scanned_def state_with_def)

text \<open>
  C1 fails on the code. The scan of a device with a boot keyboard and a boot mouse
  interface records a composite entry that lists both classifications, but under a key
  with 28 spaces after the second colon; the lookups build a key with 23, so no key of the
  analysis is ever found: after the scan \<open>get_companion_interfaces('keyboard', 0)\<close> is
  the empty mapping and \<open>is_composite_device('keyboard', 0)\<close> is \<open>(False, [])\<close>.
\<close>

theorem companion_lookup_misses_composite:
  "force_refresh 0 (state_with [combo_device]) = Some (Inr (), combo_scanned 0)
   \<and> map (\<lambda>(key, composite). (key, types composite)) (composite_devices (cache (combo_scanned 0)))
       = [(analysis_device_id combo_device, [''keyboard'', ''mouse''])]
   \<and> analysis_device_id combo_device \<noteq> lookup_device_id combo_device
   \<and> get_companion_interfaces ''keyboard'' 0 (1 / 2) (combo_scanned 0)
       = Some (Inr [], combo_scanned 0)
   \<and> is_composite_device ''keyboard'' 0 (1 / 2) (combo_scanned 0)
       = Some (Inr (False, []), combo_scanned 0)"
proof -
  have recorded:
    "map (\<lambda>(key, composite). (key, types composite)) (composite_devices (cache (combo_scanned 0)))
       = [(analysis_device_id combo_device, [''keyboard'', ''mouse''])]"
    by (simp add: combo_scanned_def combo_scan_def combo_record_def)
  have getter: "get_keyboard_device 0 (1 / 2) (combo_scanned 0)
                  = Some (Inr (Some combo_device), combo_scanned 0)"
    by (simp add: get_keyboard_device_def bucket_device_def combo_still_fresh)
       (simp add: combo_scanned_def combo_scan_def combo_keyboard_if_def)
  have miss: "map_of (composite_devices (cache (combo_scanned 0))) (lookup_device_id combo_device)
                = None"
    by (simp add: combo_scanned_def combo_scan_def device_id_mismatch [symmetric])
  have companions: "get_companion_interfaces ''keyboard'' 0 (1 / 2) (combo_scanned 0)
                      = Some (Inr [], combo_scanned 0)"
    by (simp add: get_companion_interfaces_def device_getter_def getter miss)
  have composite: "is_composite_device ''keyboard'' 0 (1 / 2) (combo_scanned 0)
                     = Some (Inr (False, []), combo_scanned 0)"
    by (simp add: is_composite_device_def device_getter_def getter miss)
  from refresh_combo [of 0] recorded device_id_mismatch [of combo_device] companions composite
  show ?thesis by blast
qed

subsection \<open>Change notification\<close>

lemma run_callbacks_all:
  "run_callbacks k callbacks device_type action idx
     = map (\<lambda>j. (j, device_type, action, idx)) [k..<k + length callbacks]"
proof (induction callbacks arbitrary: k)
  case Nil
  show ?case by simp
next
  case (Cons cb cbs)
  have "[k..<k + length (cb # cbs)] = k # [Suc k..<Suc k + length cbs]"
    by (subst upt_rec) simp
  with Cons show ?case by (cases "cb device_type action idx") simp_all
qed

lemma notify_bucket_calls:
  "notify_bucket callbacks device_type old_count new_count
     = map (\<lambda>(k, action, idx). (k, butlast device_type, action, idx))
         (expected_calls (length callbacks) old_count new_count)"
  by (simp add: notify_bucket_def expected_calls_def run_callbacks_all comp_def)

lemma notify_nothing_registered: "notify_device_changes [] old_cache new_cache = []"
  by (simp add: notify_device_changes_def notify_bucket_def)

text \<open>
  C3, as the code has it. For each bucket whose size changed, every registered callback is
  called exactly once, in registration order, whatever the difference of the sizes and
  whether or not an earlier callback raised: with \<open>'added'\<close> and the new size minus one when
  the bucket grew, with \<open>'removed'\<close> and the old size minus one when it shrank. The first
  argument is \<open>'keyboard'\<close> for the keyboards and \<open>'gamepad'\<close> for the gamepads (the
  theorem does not say what it is for the mice). A rebuild that completes appends exactly
  these calls and returns normally.
\<close>

theorem notify_once_per_changed_bucket:
  "notify_device_changes callbacks old_cache new_cache
     = notify_bucket callbacks ''keyboards'' (length (keyboards old_cache))
         (length (keyboards new_cache))
       @ notify_bucket callbacks ''mice'' (length (mice old_cache)) (length (mice new_cache))
       @ notify_bucket callbacks ''gamepads'' (length (gamepads old_cache))
           (length (gamepads new_cache))
   \<and> notify_bucket callbacks ''keyboards'' old_count new_count
       = map (\<lambda>(k, action, idx). (k, ''keyboard'', action, idx))
           (expected_calls (length callbacks) old_count new_count)
   \<and> notify_bucket callbacks ''gamepads'' old_count new_count
       = map (\<lambda>(k, action, idx). (k, ''gamepad'', action, idx))
           (expected_calls (length callbacks) old_count new_count)
   \<and> map (\<lambda>(k, device_type, action, idx). (k, action, idx))
         (notify_bucket callbacks ''mice'' old_count new_count)
       = expected_calls (length callbacks) old_count new_count
   \<and> (rebuild_cache current_time s = Some (Inr (), s') \<longrightarrow>
        invocations s' = invocations s
          @ notify_device_changes (device_change_callbacks s) (cache s) (cache s'))"
proof -
  have whole: "notify_device_changes callbacks old_cache new_cache
     = notify_bucket callbacks ''keyboards'' (length (keyboards old_cache))
         (length (keyboards new_cache))
       @ notify_bucket callbacks ''mice'' (length (mice old_cache)) (length (mice new_cache))
       @ notify_bucket callbacks ''gamepads'' (length (gamepads old_cache))
           (length (gamepads new_cache))"
    by (simp add: notify_device_changes_def bucket_count_def bucket_def)
  have kb: "notify_bucket callbacks ''keyboards'' old_count new_count
       = map (\<lambda>(k, action, idx). (k, ''keyboard'', action, idx))
           (expected_calls (length callbacks) old_count new_count)"
    by (simp add: notify_bucket_calls)
  have gp: "notify_bucket callbacks ''gamepads'' old_count new_count
       = map (\<lambda>(k, action, idx). (k, ''gamepad'', action, idx))
           (expected_calls (length callbacks) old_count new_count)"
    by (simp add: notify_bucket_calls)
  have ms: "map (\<lambda>(k, device_type, action, idx). (k, action, idx))
         (notify_bucket callbacks ''mice'' old_count new_count)
       = expected_calls (length callbacks) old_count new_count"
    by (simp add: notify_bucket_calls comp_def case_prod_unfold)
  have rb: "invocations s' = invocations s
          @ notify_device_changes (device_change_callbacks s) (cache s) (cache s')"
    if "rebuild_cache current_time s = Some (Inr (), s')"
    using that
    by (cases "device_change_callbacks s = []")
       (auto simp: rebuild_cache_def Let_def notify_nothing_registered
          split: option.splits prod.splits)
  from whole kb gp ms rb show ?thesis by blast
qed

theorem notify_once_per_changed_bucket_witness:
  "notify_device_changes [failing_callback, quiet_callback] initial_cache two_keyboards_cache
     = [(0, ''keyboard'', ''added'', 1), (1, ''keyboard'', ''added'', 1)]"
proof -
  have "expected_calls (length [failing_callback, quiet_callback]) 0 2
          = [(0, ''added'', 1), (1, ''added'', 1)]"
    by (simp add: expected_calls_def upt_rec)
  moreover have "expected_calls (length [failing_callback, quiet_callback]) 0 0 = []"
    by (simp add: expected_calls_def)
  moreover have "notify_bucket [failing_callback, quiet_callback] ''mice'' 0 0 = []"
    by (simp add: notify_bucket_def)
  ultimately show ?thesis
    using notify_once_per_changed_bucket
      [where callbacks = "[failing_callback, quiet_callback]" and old_cache = initial_cache
         and new_cache = two_keyboards_cache and old_count = 0 and new_count = 2]
      notify_once_per_changed_bucket
      [where callbacks = "[failing_callback, quiet_callback]" and old_cache = initial_cache
         and new_cache = two_keyboards_cache and old_count = 0 and new_count = 0]
    by (simp add: initial_cache_def two_keyboards_cache_def numeral_2_eq_2)
qed

lemma keyboard_configurations:
  "get_configuration_descriptor keyboard_device 0 = Inr keyboard_blob"
  "get_configuration_descriptor second_keyboard_device 0 = Inr keyboard_blob"
  unfolding keyboard_device_def second_keyboard_device_def
  by (rule simple_device_configuration, simp_all add: keyboard_blob_def)+

lemma keyboard_endpoint: "find_input_endpoint keyboard_blob 18 = Some (Inr (Some 129))"
  by (simp add: find_input_endpoint_def find_loop.simps byte_at_def keyboard_blob_def)

lemma keyboard_interfaces:
  "collect_hid_interfaces initial_filters keyboard_device keyboard_blob 0 []
     = Some (Inr [acme_keyboard_info])"
  "collect_hid_interfaces initial_filters second_keyboard_device keyboard_blob 0 []
     = Some (Inr [second_keyboard_info])"
  by (simp_all add: collect_hid_interfaces.simps visit_descriptor_def byte_at_def
        keyboard_endpoint [unfolded keyboard_blob_def] keyboard_blob_def
        device_passes_filter_def initial_filters_def set_and_not_in_def Let_def getattr_def
        acme_keyboard_info_def second_keyboard_info_def keyboard_device_def
        second_keyboard_device_def simple_device_def)

lemma keyboard_groups:
  "group_by_type [acme_keyboard_info] = [(''keyboard'', [acme_keyboard_info])]"
  "group_by_type [second_keyboard_info] = [(''keyboard'', [second_keyboard_info])]"
  by (simp_all add: group_by_type_def add_interface_def classify_hid_device_def
        acme_keyboard_info_def second_keyboard_info_def Let_def)

lemma keyboard_best:
  "select_best_interface_for_type [acme_keyboard_info] ''keyboard'' = Inr acme_keyboard_info"
  "select_best_interface_for_type [second_keyboard_info] ''keyboard'' = Inr second_keyboard_info"
  by (simp_all add: select_best_interface_for_type_def acme_keyboard_info_def
        second_keyboard_info_def Let_def)

lemma analyze_first_keyboard:
  "keyboards c = [] \<Longrightarrow>
   analyze_device initial_filters keyboard_device c
     = Some (None, c\<lparr>keyboards := [acme_keyboard_info]\<rparr>)"
  by (simp add: analyze_device_def keyboard_configurations keyboard_interfaces keyboard_groups
        keyboard_best Let_def device_already_cached_def bucket_def)

lemma analyze_second_keyboard:
  "keyboards c = [acme_keyboard_info] \<Longrightarrow>
   analyze_device initial_filters second_keyboard_device c
     = Some (None, c\<lparr>keyboards := [acme_keyboard_info, second_keyboard_info]\<rparr>)"
  by (simp add: analyze_device_def keyboard_configurations keyboard_interfaces keyboard_groups
        keyboard_best Let_def device_already_cached_def bucket_def)
     (simp add: acme_keyboard_info_def keyboard_device_def second_keyboard_device_def
        simple_device_def)

text \<open>
  The claim as stated fails: when two keyboards are plugged in and one rebuild finds both,
  the bucket grows by two and the one registered callback is called once.
\<close>

theorem two_new_keyboards_one_call:
  "force_refresh 0 two_keyboards_plugged = Some (Inr (), two_keyboards_scanned)
   \<and> length (keyboards (cache two_keyboards_scanned))
       - length (keyboards (cache two_keyboards_plugged)) = 2
   \<and> invocations two_keyboards_plugged = []
   \<and> invocations two_keyboards_scanned = [(0, ''keyboard'', ''added'', 1)]"
  by (simp add: force_refresh_def refresh_device_cache_def rebuild_cache_def
        two_keyboards_plugged_def two_keyboards_scanned_def state_with_def initial_cache_def
        analyze_first_keyboard analyze_second_keyboard Let_def two_keyboards_cache_def
        notify_device_changes_def notify_bucket_def bucket_count_def bucket_def
        quiet_callback_def)

subsection \<open>Invalid arguments\<close>

lemma negative_index_raises:
  "index < 0 \<Longrightarrow> bucket_info sel index current_time s = Some (Inl IndexError, s)"
  "index < 0 \<Longrightarrow> bucket_device sel index current_time s = Some (Inl IndexError, s)"
  by (simp_all add: bucket_info_def bucket_device_def)

lemma getter_negative_index:
  "index < 0 \<Longrightarrow> device_getter device_type = Some getter \<Longrightarrow>
   getter index current_time s = Some (Inl IndexError, s)"
  by (auto simp: device_getter_def get_keyboard_device_def get_mouse_device_def
        get_gamepad_device_def negative_index_raises split: if_splits)

lemma getter_unrecognized:
  "device_type \<noteq> ''keyboard'' \<Longrightarrow> device_type \<noteq> ''mouse'' \<Longrightarrow>
   device_type \<noteq> ''gamepad'' \<Longrightarrow> device_getter device_type = None"
  by (simp add: device_getter_def)

text \<open>
  C4, as the code has it. With a negative index the nine \<open>get_*_info\<close> and
  \<open>get_*_device\<close> operations and \<open>get_info\<close> (for a recognized name) raise
  \<open>IndexError\<close> to the caller, before any refresh; \<open>get_info\<close> raises \<open>ValueError\<close>
  for an unrecognized name. \<open>is_composite_device\<close>, \<open>get_companion_interfaces\<close> and
  \<open>is_device_connected\<close> raise in neither case: they return \<open>(False, [])\<close>, the empty
  mapping and \<open>False\<close>, and leave the state as it is.
\<close>

theorem invalid_arguments_by_operation:
  "(index < 0 \<longrightarrow>
      get_keyboard_info index t s = Some (Inl IndexError, s)
    \<and> get_mouse_info index t s = Some (Inl IndexError, s)
    \<and> get_gamepad_info index t s = Some (Inl IndexError, s)
    \<and> get_keyboard_device index t s = Some (Inl IndexError, s)
    \<and> get_mouse_device index t s = Some (Inl IndexError, s)
    \<and> get_gamepad_device index t s = Some (Inl IndexError, s)
    \<and> (device_type = ''keyboard'' \<or> device_type = ''mouse'' \<or> device_type = ''gamepad'' \<longrightarrow>
         get_info device_type index t s = Some (Inl IndexError, s))
    \<and> is_composite_device device_type index t s = Some (Inr (False, []), s)
    \<and> get_companion_interfaces device_type index t s = Some (Inr [], s)
    \<and> is_device_connected device_type index t s = Some (Inr False, s))
   \<and> (device_type \<noteq> ''keyboard'' \<and> device_type \<noteq> ''mouse'' \<and> device_type \<noteq> ''gamepad'' \<longrightarrow>
      get_info device_type index t s = Some (Inl (ValueError (invalid_device_type_message device_type)), s)
    \<and> is_composite_device device_type index t s = Some (Inr (False, []), s)
    \<and> get_companion_interfaces device_type index t s = Some (Inr [], s)
    \<and> is_device_connected device_type index t s = Some (Inr False, s))"
proof (intro conjI impI)
  assume neg: "index < 0"
  show "get_keyboard_info index t s = Some (Inl IndexError, s)"
    using neg by (simp add: get_keyboard_info_def negative_index_raises)
  show "get_mouse_info index t s = Some (Inl IndexError, s)"
    using neg by (simp add: get_mouse_info_def negative_index_raises)
  show "get_gamepad_info index t s = Some (Inl IndexError, s)"
    using neg by (simp add: get_gamepad_info_def negative_index_raises)
  show "get_keyboard_device index t s = Some (Inl IndexError, s)"
    using neg by (simp add: get_keyboard_device_def negative_index_raises)
  show "get_mouse_device index t s = Some (Inl IndexError, s)"
    using neg by (simp add: get_mouse_device_def negative_index_raises)
  show "get_gamepad_device index t s = Some (Inl IndexError, s)"
    using neg by (simp add: get_gamepad_device_def negative_index_raises)
  show "is_composite_device device_type index t s = Some (Inr (False, []), s)"
    using neg
    by (cases "device_getter device_type")
       (simp_all add: is_composite_device_def getter_negative_index)
  show "get_companion_interfaces device_type index t s = Some (Inr [], s)"
    using neg
    by (cases "device_getter device_type")
       (simp_all add: get_companion_interfaces_def getter_negative_index)
  show "is_device_connected device_type index t s = Some (Inr False, s)"
    using neg
    by (cases "device_getter device_type")
       (simp_all add: is_device_connected_def getter_negative_index)
next
  assume "index < 0"
    and "device_type = ''keyboard'' \<or> device_type = ''mouse'' \<or> device_type = ''gamepad''"
  then show "get_info device_type index t s = Some (Inl IndexError, s)"
    by (auto simp: get_info_def get_keyboard_info_def get_mouse_info_def get_gamepad_info_def
          negative_index_raises)
next
  assume other: "device_type \<noteq> ''keyboard'' \<and> device_type \<noteq> ''mouse'' \<and> device_type \<noteq> ''gamepad''"
  show "get_info device_type index t s = Some (Inl (ValueError (invalid_device_type_message device_type)), s)"
    using other by (simp add: get_info_def)
  show "is_composite_device device_type index t s = Some (Inr (False, []), s)"
    using other by (simp add: is_composite_device_def getter_unrecognized)
  show "get_companion_interfaces device_type index t s = Some (Inr [], s)"
    using other by (simp add: get_companion_interfaces_def getter_unrecognized)
  show "is_device_connected device_type index t s = Some (Inr False, s)"
    using other by (simp add: is_device_connected_def getter_unrecognized)
qed

theorem invalid_arguments_by_operation_witness:
  "get_mouse_info (- 1) 0 (state_with [keyboard_device])
     = Some (Inl IndexError, state_with [keyboard_device])
   \<and> get_info ''gamepad'' (- 1) 0 (state_with [keyboard_device])
     = Some (Inl IndexError, state_with [keyboard_device])
   \<and> get_info ''joystick'' 0 0 (state_with [keyboard_device])
     = Some (Inl (ValueError (invalid_device_type_message ''joystick'')),
         state_with [keyboard_device])
   \<and> get_companion_interfaces ''joystick'' 0 0 (state_with [keyboard_device])
     = Some (Inr [], state_with [keyboard_device])"
  using invalid_arguments_by_operation
      [where index = "- 1" and device_type = "''gamepad''" and t = 0
         and s = "state_with [keyboard_device]"]
    invalid_arguments_by_operation
      [where index = 0 and device_type = "''joystick''" and t = 0
         and s = "state_with [keyboard_device]"]
  by simp

text \<open>
  The claim as stated fails: \<open>is_composite_device('keyboard', -1)\<close> and
  \<open>is_composite_device('joystick', 0)\<close> return \<open>(False, [])\<close> instead of raising.
\<close>

theorem negative_index_swallowed:
  "is_composite_device ''keyboard'' (- 1) 0 (state_with [keyboard_device])
     = Some (Inr (False, []), state_with [keyboard_device])
   \<and> is_composite_device ''joystick'' 0 0 (state_with [keyboard_device])
     = Some (Inr (False, []), state_with [keyboard_device])"
  by (simp add: is_composite_device_def device_getter_def get_keyboard_device_def
        bucket_device_def)

subsection \<open>Rebuilds and the cache timeout\<close>


lemma cached_last_scan [simp]:
  "device_already_cached (c\<lparr>last_scan := x\<rparr>) dev device_type = device_already_cached c dev device_type"
  by (simp add: device_already_cached_def bucket_def)






lemma cleared_last_scan: "cleared (c\<lparr>last_scan := x\<rparr>) = (cleared c)\<lparr>last_scan := x\<rparr>"
  by (simp add: cleared_def)

































end
